theory Spec2Isabelle
  imports Complex_Main "HOL-Library.Multiset"
begin

section \<open>Data model (src/account.py)\<close>

text \<open>
  Python's \<open>Decimal\<close> values are modelled by the exact rational number they denote.
  Subtraction, addition and comparison of two finite \<open>Decimal\<close>s are then the ones
  of \<open>rat\<close>. The special values NaN and Infinity, the 28-digit precision of the
  arithmetic context and the scale of the column type \<open>Numeric(15, 2)\<close> are not
  part of the model.
\<close>

type_synonym decimal = rat

text \<open>
  \<open>class Account(db.Model)\<close>: one row of the table \<open>accounts\<close>. The column
  \<open>created_at\<close> is a point in time, filled by the column default on insert.
\<close>

record account =
  acc_id :: string
  acc_name :: string
  acc_currency :: string
  account_type :: string
  acc_status :: string
  balance :: decimal
  acc_created_at :: nat

text \<open>\<open>class Transaction(db.Model)\<close>: one row of the table \<open>transactions\<close>.\<close>

record transaction =
  txn_id :: string
  from_account :: string
  to_account :: string
  amount :: decimal
  txn_currency :: string
  description :: string
  txn_status :: string
  txn_created_at :: nat

text \<open>
  The database: both tables, each as the list of its rows in insertion order.
  \<open>id\<close> is the primary key of either table.
\<close>

record state =
  accounts :: "account list"
  transactions :: "transaction list"

section \<open>Requests, errors and the environment (src/trms.py)\<close>

text \<open>
  What \<open>Decimal(str(data['amount']))\<close> yields: a decimal number, or the exception
  \<open>decimal.InvalidOperation\<close> when the text is not a number.
\<close>

datatype amount_value = Dec decimal | NotADecimal

text \<open>
  The JSON body of \<open>POST /transactions\<close>. A key that is absent from the body is
  \<open>None\<close>.
\<close>

record request =
  req_from_account :: "string option"
  req_to_account :: "string option"
  req_amount :: "amount_value option"
  req_currency :: "string option"
  req_description :: "string option"

text \<open>
  The ways \<open>create_transaction\<close> ends without a transaction: the four error
  responses it returns itself, and the two exceptions that leave it
  (\<open>InvalidOperation\<close> from the conversion of the amount, \<open>IntegrityError\<close> from the
  commit when the primary key of the new row is taken).
\<close>

datatype error =
    MissingField string
  | SourceNotFound
  | TargetNotFound
  | InsufficientFunds
  | InvalidOperation
  | IntegrityError

text \<open>
  What the handler reads from outside the request and the database: the hexadecimal
  text of \<open>uuid.uuid4()\<close> and the clock \<open>datetime.utcnow()\<close>.
\<close>

record env =
  uuid_hex :: string
  utcnow :: nat

text \<open>\<open>str.upper()\<close> on ASCII text: the letters a to z are mapped to A to Z.\<close>

definition upper_char :: "char \<Rightarrow> char" where
  "upper_char c =
     (let n = (of_char c :: nat) in if 97 \<le> n \<and> n \<le> 122 then char_of (n - 32) else c)"

definition upper :: "string \<Rightarrow> string" where
  "upper s = map upper_char s"

section \<open>The account store\<close>

text \<open>\<open>Account.query.get(id)\<close>: the row with that primary key, if there is one.\<close>

definition get_account :: "account list \<Rightarrow> string \<Rightarrow> account option" where
  "get_account accs i = find (\<lambda>a. acc_id a = i) accs"

text \<open>
  An assignment to an attribute of the object that \<open>Account.query.get(i)\<close> returned.
  The session hands out one object per primary key, so two lookups of the same id
  are the same object, and the second assignment sees the first.
\<close>

fun update_account :: "string \<Rightarrow> (account \<Rightarrow> account) \<Rightarrow> account list \<Rightarrow> account list" where
  "update_account i f [] = []"
| "update_account i f (a # accs) =
     (if acc_id a = i then f a # accs else a # update_account i f accs)"

text \<open>\<open>Transaction.query.get(id)\<close>.\<close>

definition get_transaction :: "transaction list \<Rightarrow> string \<Rightarrow> transaction option" where
  "get_transaction txns i = find (\<lambda>t. txn_id t = i) txns"

section \<open>The transfer: \<open>create_transaction\<close>\<close>

text \<open>The row that \<open>Transaction(...)\<close> builds; \<open>created_at\<close> is the column default.\<close>

definition new_transaction ::
  "env \<Rightarrow> string \<Rightarrow> string \<Rightarrow> decimal \<Rightarrow> string \<Rightarrow> string option \<Rightarrow> transaction" where
  "new_transaction e f t amt c d =
     \<lparr>txn_id = ''TXN-'' @ upper (take 8 (uuid_hex e)),
      from_account = f,
      to_account = t,
      amount = amt,
      txn_currency = upper c,
      description = (case d of None \<Rightarrow> '''' | Some x \<Rightarrow> x),
      txn_status = ''Completed'',
      txn_created_at = utcnow e\<rparr>"

text \<open>
  \<open>create_transaction\<close> returns the response and the database after the request.
  The checks are in the order of the source: the four required keys, the source
  account, the target account, the conversion of the amount, the balance. The two
  balances are then assigned one after the other, the row is added and the session
  is committed; a commit that fails on the primary key rolls everything back.
\<close>

definition create_transaction :: "env \<Rightarrow> request \<Rightarrow> state \<Rightarrow> (error + transaction) \<times> state" where
  "create_transaction e data s =
     (case req_from_account data of
        None \<Rightarrow> (Inl (MissingField ''from_account''), s)
      | Some f \<Rightarrow>
     (case req_to_account data of
        None \<Rightarrow> (Inl (MissingField ''to_account''), s)
      | Some t \<Rightarrow>
     (case req_amount data of
        None \<Rightarrow> (Inl (MissingField ''amount''), s)
      | Some v \<Rightarrow>
     (case req_currency data of
        None \<Rightarrow> (Inl (MissingField ''currency''), s)
      | Some c \<Rightarrow>
     (case get_account (accounts s) f of
        None \<Rightarrow> (Inl SourceNotFound, s)
      | Some from_acc \<Rightarrow>
     (case get_account (accounts s) t of
        None \<Rightarrow> (Inl TargetNotFound, s)
      | Some to_acc \<Rightarrow>
     (case v of
        NotADecimal \<Rightarrow> (Inl InvalidOperation, s)
      | Dec amt \<Rightarrow>
          if balance from_acc < amt then (Inl InsufficientFunds, s)
          else
            let txn = new_transaction e f t amt c (req_description data);
                accs1 = update_account f (\<lambda>a. a\<lparr>balance := balance a - amt\<rparr>) (accounts s);
                accs2 = update_account t (\<lambda>a. a\<lparr>balance := balance a + amt\<rparr>) accs1
            in if get_transaction (transactions s) (txn_id txn) \<noteq> None
               then (Inl IntegrityError, s)
               else (Inr txn, \<lparr>accounts = accs2, transactions = transactions s @ [txn]\<rparr>))))))))"

text \<open>The HTTP status of a response; an exception that leaves the handler is a 500.\<close>

fun http_status :: "error + transaction \<Rightarrow> nat" where
  "http_status (Inr _) = 201"
| "http_status (Inl (MissingField _)) = 400"
| "http_status (Inl SourceNotFound) = 404"
| "http_status (Inl TargetNotFound) = 404"
| "http_status (Inl InsufficientFunds) = 400"
| "http_status (Inl InvalidOperation) = 500"
| "http_status (Inl IntegrityError) = 500"

section \<open>The queries\<close>

text \<open>
  \<open>get_accounts\<close>: \<open>request.args.get('currency')\<close> is \<open>None\<close> without the parameter;
  an empty text is false in \<open>if currency:\<close>.
\<close>

definition get_accounts :: "string option \<Rightarrow> state \<Rightarrow> account list" where
  "get_accounts currency s =
     (case currency of
        None \<Rightarrow> accounts s
      | Some c \<Rightarrow>
          if c \<noteq> [] then filter (\<lambda>a. acc_currency a = upper c) (accounts s)
          else accounts s)"

text \<open>
  \<open>get_account_balance\<close>: the answer for an account that exists (the balance as the
  decimal it is, not as the \<open>float\<close> of the JSON answer); \<open>None\<close> is the 404 of
  \<open>get_or_404\<close>.
\<close>

record balance_info =
  info_account_id :: string
  info_balance :: decimal
  info_currency :: string
  info_status :: string

definition get_account_balance :: "string \<Rightarrow> state \<Rightarrow> balance_info option" where
  "get_account_balance account_id s =
     map_option
       (\<lambda>a. \<lparr>info_account_id = acc_id a, info_balance = balance a,
              info_currency = acc_currency a, info_status = acc_status a\<rparr>)
       (get_account (accounts s) account_id)"

text \<open>The balance that \<open>get_account_balance\<close> reports for the account with id \<open>i\<close>.\<close>

definition balance_of :: "state \<Rightarrow> string \<Rightarrow> decimal option" where
  "balance_of s i = map_option info_balance (get_account_balance i s)"


section \<open>Sample data (src/seed_data.py)\<close>

definition mk_account :: "string \<Rightarrow> string \<Rightarrow> string \<Rightarrow> string \<Rightarrow> string \<Rightarrow> decimal \<Rightarrow> nat \<Rightarrow> account" where
  "mk_account i n c ty st b ts =
     \<lparr>acc_id = i, acc_name = n, acc_currency = c, account_type = ty, acc_status = st,
      balance = b, acc_created_at = ts\<rparr>"

text \<open>The six accounts of \<open>seed_accounts\<close>, created at time \<open>ts\<close>.\<close>

definition sample_accounts :: "nat \<Rightarrow> account list" where
  "sample_accounts ts =
     [mk_account ''ACC-001-USD'' ''Trading Account USD'' ''USD'' ''Trading'' ''Active'' 1000000 ts,
      mk_account ''ACC-002-USD'' ''Settlement Account USD'' ''USD'' ''Settlement'' ''Active'' 500000 ts,
      mk_account ''ACC-003-EUR'' ''Trading Account EUR'' ''EUR'' ''Trading'' ''Active'' 750000 ts,
      mk_account ''ACC-004-EUR'' ''Settlement Account EUR'' ''EUR'' ''Settlement'' ''Active'' 300000 ts,
      mk_account ''ACC-005-GBP'' ''Trading Account GBP'' ''GBP'' ''Trading'' ''Active'' 600000 ts,
      mk_account ''ACC-006-JPY'' ''Trading Account JPY'' ''JPY'' ''Trading'' ''Active'' 100000000 ts]"

text \<open>\<open>seed_accounts\<close>: each sample account is added unless its id is in the table.\<close>

fun add_accounts :: "account list \<Rightarrow> account list \<Rightarrow> account list" where
  "add_accounts [] accs = accs"
| "add_accounts (a # new) accs =
     (case get_account accs (acc_id a) of
        None \<Rightarrow> add_accounts new (accs @ [a])
      | Some _ \<Rightarrow> add_accounts new accs)"

definition seed_accounts :: "nat \<Rightarrow> state \<Rightarrow> state" where
  "seed_accounts ts s = s\<lparr>accounts := add_accounts (sample_accounts ts) (accounts s)\<rparr>"

text \<open>The database right after \<open>seed_accounts\<close> on empty tables, at time 0.\<close>

definition sample_state :: state where
  "sample_state = seed_accounts 0 \<lparr>accounts = [], transactions = []\<rparr>"

definition sample_env :: env where
  "sample_env = \<lparr>uuid_hex = ''0a1b2c3d4e5f60718293a4b5c6d7e8f9'', utcnow = 10\<rparr>"

text \<open>A body with the four required keys and no description.\<close>

definition transfer_request :: "string \<Rightarrow> string \<Rightarrow> amount_value \<Rightarrow> string \<Rightarrow> request" where
  "transfer_request f t v c =
     \<lparr>req_from_account = Some f, req_to_account = Some t, req_amount = Some v,
      req_currency = Some c, req_description = None\<rparr>"

section \<open>Account status\<close>

text \<open>The database with the status of every account replaced: account \<open>i\<close> gets \<open>st i\<close>.\<close>

definition with_status :: "(string \<Rightarrow> string) \<Rightarrow> state \<Rightarrow> state" where
  "with_status st s =
     s\<lparr>accounts := map (\<lambda>a. a\<lparr>acc_status := st (acc_id a)\<rparr>) (accounts s)\<rparr>"

section \<open>The specification's reading of validation and listing\<close>

text \<open>
  The error kinds of the specification's validation steps, and the first step that
  fails when the steps run in the specification's order: ids present, non-empty and
  different; amount a positive decimal with at most two fractional digits; source
  account found; target account found; balance sufficient. These two definitions
  follow the specification's words, not the source; they are what the source is
  compared with.
\<close>

datatype spec_error =
    Spec_MissingField
  | Spec_SelfTransfer
  | Spec_InvalidAmount
  | Spec_SourceNotFound
  | Spec_TargetNotFound
  | Spec_InsufficientFunds

definition two_fractional_digits :: "decimal \<Rightarrow> bool" where
  "two_fractional_digits a \<longleftrightarrow> of_int \<lfloor>a * 100\<rfloor> = a * 100"

definition spec_validation :: "request \<Rightarrow> state \<Rightarrow> spec_error option" where
  "spec_validation data s =
     (case (req_from_account data, req_to_account data) of
        (Some f, Some t) \<Rightarrow>
          if f = [] \<or> t = [] then Some Spec_MissingField
          else if f = t then Some Spec_SelfTransfer
          else
            (case req_amount data of
               Some (Dec amt) \<Rightarrow>
                 if amt \<le> 0 \<or> \<not> two_fractional_digits amt then Some Spec_InvalidAmount
                 else
                   (case get_account (accounts s) f of
                      None \<Rightarrow> Some Spec_SourceNotFound
                    | Some from_acc \<Rightarrow>
                        (case get_account (accounts s) t of
                           None \<Rightarrow> Some Spec_TargetNotFound
                         | Some to_acc \<Rightarrow>
                             if balance from_acc < amt then Some Spec_InsufficientFunds
                             else None))
             | _ \<Rightarrow> Some Spec_InvalidAmount)
      | _ \<Rightarrow> Some Spec_MissingField)"


section \<open>Sequences of requests\<close>

text \<open>No account is overdrawn.\<close>

definition no_overdraft :: "state \<Rightarrow> bool" where
  "no_overdraft s \<longleftrightarrow> list_all (\<lambda>a. 0 \<le> balance a) (accounts s)"

text \<open>
  The database after a sequence of \<open>POST /transactions\<close> requests, each with the
  environment it runs in. The queries do not write, so they are left out.
\<close>

fun run :: "(env \<times> request) list \<Rightarrow> state \<Rightarrow> state" where
  "run [] s = s"
| "run (x # xs) s = run xs (snd (create_transaction (fst x) (snd x) s))"

text \<open>The amount of the request, if it is a decimal, is not negative.\<close>

definition amount_not_negative :: "request \<Rightarrow> bool" where
  "amount_not_negative r =
     (case req_amount r of Some (Dec amt) \<Rightarrow> 0 \<le> amt | _ \<Rightarrow> True)"





section \<open>Facts about the account store\<close>

lemma get_account_update_same:
  assumes "\<And>a. acc_id (g a) = acc_id a"
  shows "get_account (update_account i g accs) i = map_option g (get_account accs i)"
  using assms by (induction accs) (auto simp: get_account_def)

lemma get_account_update_other:
  assumes "\<And>a. acc_id (g a) = acc_id a" and "j \<noteq> i"
  shows "get_account (update_account i g accs) j = get_account accs j"
  using assms by (induction accs) (auto simp: get_account_def)

lemma balance_of_eq: "balance_of s i = map_option balance (get_account (accounts s) i)"
  by (simp add: balance_of_def get_account_balance_def option.map_comp comp_def)


section \<open>Facts about \<open>create_transaction\<close>\<close>

lemma create_transaction_error_unchanged:
  "fst (create_transaction e r s) = Inl x \<Longrightarrow> snd (create_transaction e r s) = s"
  by (auto simp: create_transaction_def Let_def
      split: option.splits amount_value.splits if_splits)

lemma create_transaction_success:
  assumes "req_from_account r = Some f" and "req_to_account r = Some t"
    and "req_amount r = Some (Dec amt)" and "req_currency r = Some c"
    and "get_account (accounts s) f = Some fa" and "get_account (accounts s) t = Some ta"
    and "amt \<le> balance fa"
    and "get_transaction (transactions s)
           (txn_id (new_transaction e f t amt c (req_description r))) = None"
  shows "create_transaction e r s =
    (Inr (new_transaction e f t amt c (req_description r)),
     \<lparr>accounts = update_account t (\<lambda>a. a\<lparr>balance := balance a + amt\<rparr>)
                   (update_account f (\<lambda>a. a\<lparr>balance := balance a - amt\<rparr>) (accounts s)),
      transactions = transactions s @ [new_transaction e f t amt c (req_description r)]\<rparr>)"
  using assms by (simp add: create_transaction_def Let_def)

lemma create_transaction_InrD:
  assumes "create_transaction e r s = (Inr txn, s')"
  shows "\<exists>f t amt c fa ta. req_from_account r = Some f \<and> req_to_account r = Some t \<and>
    req_amount r = Some (Dec amt) \<and> req_currency r = Some c \<and>
    get_account (accounts s) f = Some fa \<and> get_account (accounts s) t = Some ta \<and>
    amt \<le> balance fa \<and> txn = new_transaction e f t amt c (req_description r) \<and>
    get_transaction (transactions s) (txn_id txn) = None \<and>
    s' = \<lparr>accounts = update_account t (\<lambda>a. a\<lparr>balance := balance a + amt\<rparr>)
                   (update_account f (\<lambda>a. a\<lparr>balance := balance a - amt\<rparr>) (accounts s)),
          transactions = transactions s @ [txn]\<rparr>"
  using assms
  by (auto simp: create_transaction_def Let_def
      split: option.splits amount_value.splits if_splits)

text \<open>The sample database, unfolded, and the lookups the examples below need.\<close>

lemma sample_state_eq:
  "sample_state = \<lparr>accounts = sample_accounts 0, transactions = []\<rparr>"
  by (simp add: sample_state_def seed_accounts_def sample_accounts_def mk_account_def
      get_account_def)

lemma sample_lookup_001:
  "get_account (sample_accounts 0) ''ACC-001-USD'' =
     Some (mk_account ''ACC-001-USD'' ''Trading Account USD'' ''USD'' ''Trading'' ''Active'' 1000000 0)"
  by (simp add: sample_accounts_def mk_account_def get_account_def)

lemma sample_lookup_002:
  "get_account (sample_accounts 0) ''ACC-002-USD'' =
     Some (mk_account ''ACC-002-USD'' ''Settlement Account USD'' ''USD'' ''Settlement'' ''Active'' 500000 0)"
  by (simp add: sample_accounts_def mk_account_def get_account_def)

section \<open>Insufficient funds\<close>

text \<open>
  Claim C5. For a request with all required keys whose two accounts exist and whose
  amount is a decimal: when the amount is strictly greater than the balance of the
  source account, the response is the error \<open>InsufficientFunds\<close> and the database
  is the one before the request (no transaction row, no balance changed); when the
  amount is equal to or less than that balance, the response is not this error.
\<close>

theorem insufficient_funds_rejected:
  assumes "req_from_account r = Some f" and "req_to_account r = Some t"
    and "req_amount r = Some (Dec amt)" and "req_currency r = Some c"
    and "get_account (accounts s) f = Some fa" and "get_account (accounts s) t = Some ta"
  shows "(balance fa < amt \<longrightarrow> create_transaction e r s = (Inl InsufficientFunds, s)) \<and>
         (amt \<le> balance fa \<longrightarrow> fst (create_transaction e r s) \<noteq> Inl InsufficientFunds)"
  using assms by (simp add: create_transaction_def Let_def)

theorem insufficient_funds_rejected_witness:
  "create_transaction sample_env
      (transfer_request ''ACC-001-USD'' ''ACC-002-USD'' (Dec 2000000) ''USD'') sample_state
     = (Inl InsufficientFunds, sample_state) \<and>
   fst (create_transaction sample_env
      (transfer_request ''ACC-001-USD'' ''ACC-002-USD'' (Dec 1000000) ''USD'') sample_state)
     \<noteq> Inl InsufficientFunds"
proof -
  let ?fa = "mk_account ''ACC-001-USD'' ''Trading Account USD'' ''USD'' ''Trading'' ''Active'' 1000000 0"
  have src: "get_account (accounts sample_state) ''ACC-001-USD'' = Some ?fa"
    by (simp add: sample_state_eq sample_lookup_001)
  have tgt: "get_account (accounts sample_state) ''ACC-002-USD'' =
      Some (mk_account ''ACC-002-USD'' ''Settlement Account USD'' ''USD'' ''Settlement'' ''Active'' 500000 0)"
    by (simp add: sample_state_eq sample_lookup_002)
  have bal: "balance ?fa = 1000000"
    by (simp add: mk_account_def)
  have big: "balance ?fa < 2000000 \<longrightarrow>
      create_transaction sample_env
        (transfer_request ''ACC-001-USD'' ''ACC-002-USD'' (Dec 2000000) ''USD'') sample_state
       = (Inl InsufficientFunds, sample_state)"
    using insufficient_funds_rejected [OF _ _ _ _ src tgt,
        of "transfer_request ''ACC-001-USD'' ''ACC-002-USD'' (Dec 2000000) ''USD''" 2000000 "''USD''" sample_env]
    by (simp add: transfer_request_def)
  have eq: "1000000 \<le> balance ?fa \<longrightarrow>
      fst (create_transaction sample_env
        (transfer_request ''ACC-001-USD'' ''ACC-002-USD'' (Dec 1000000) ''USD'') sample_state)
       \<noteq> Inl InsufficientFunds"
    using insufficient_funds_rejected [OF _ _ _ _ src tgt,
        of "transfer_request ''ACC-001-USD'' ''ACC-002-USD'' (Dec 1000000) ''USD''" 1000000 "''USD''" sample_env]
    by (simp add: transfer_request_def)
  from big eq bal show ?thesis by simp
qed

section \<open>Conservation of money\<close>



lemma sample_transfer_300:
  "create_transaction sample_env
      (transfer_request ''ACC-001-USD'' ''ACC-002-USD'' (Dec 300) ''usd'') sample_state =
   (Inr (new_transaction sample_env ''ACC-001-USD'' ''ACC-002-USD'' 300 ''usd'' None),
    \<lparr>accounts = update_account ''ACC-002-USD'' (\<lambda>a. a\<lparr>balance := balance a + 300\<rparr>)
                   (update_account ''ACC-001-USD'' (\<lambda>a. a\<lparr>balance := balance a - 300\<rparr>) (sample_accounts 0)),
      transactions = [new_transaction sample_env ''ACC-001-USD'' ''ACC-002-USD'' 300 ''usd'' None]\<rparr>)"
  using create_transaction_success [of "transfer_request ''ACC-001-USD'' ''ACC-002-USD'' (Dec 300) ''usd''"
      "''ACC-001-USD''" "''ACC-002-USD''" 300 "''usd''" sample_state _ _ sample_env]
  by (simp add: transfer_request_def sample_state_eq sample_lookup_001 sample_lookup_002
      mk_account_def get_transaction_def)




section \<open>Transfers from an account to itself\<close>





section \<open>The amount\<close>

text \<open>
  Claim C3, as the code has it. The amount is only converted, after the required keys
  and both accounts were checked. A value that does not convert ends the request with
  the exception of the conversion (a 500, not an invalid-amount error) and the
  database unchanged. A decimal from zero up to the balance of the source account is
  accepted, whatever its number of fractional digits, when the new transaction id is
  free.
\<close>

theorem amount_is_only_converted:
  assumes "req_from_account r = Some f" and "req_to_account r = Some t"
    and "req_amount r = Some v" and "req_currency r = Some c"
    and "get_account (accounts s) f = Some fa" and "get_account (accounts s) t = Some ta"
  shows "(v = NotADecimal \<longrightarrow>
            create_transaction e r s = (Inl InvalidOperation, s) \<and>
            http_status (fst (create_transaction e r s)) = 500) \<and>
         (\<forall>amt. v = Dec amt \<and> 0 \<le> amt \<and> amt \<le> balance fa \<and>
            get_transaction (transactions s)
              (txn_id (new_transaction e f t amt c (req_description r))) = None
            \<longrightarrow> fst (create_transaction e r s) =
                  Inr (new_transaction e f t amt c (req_description r)))"
  using assms by (auto simp: create_transaction_def Let_def)

theorem amount_is_only_converted_witness:
  "create_transaction sample_env
      (transfer_request ''ACC-001-USD'' ''ACC-002-USD'' NotADecimal ''USD'') sample_state
     = (Inl InvalidOperation, sample_state) \<and>
   fst (create_transaction sample_env
      (transfer_request ''ACC-001-USD'' ''ACC-002-USD'' (Dec (1 / 2)) ''USD'') sample_state)
     = Inr (new_transaction sample_env ''ACC-001-USD'' ''ACC-002-USD'' (1 / 2) ''USD'' None)"
proof -
  have src: "get_account (accounts sample_state) ''ACC-001-USD'' =
      Some (mk_account ''ACC-001-USD'' ''Trading Account USD'' ''USD'' ''Trading'' ''Active'' 1000000 0)"
    by (simp add: sample_state_eq sample_lookup_001)
  have tgt: "get_account (accounts sample_state) ''ACC-002-USD'' =
      Some (mk_account ''ACC-002-USD'' ''Settlement Account USD'' ''USD'' ''Settlement'' ''Active'' 500000 0)"
    by (simp add: sample_state_eq sample_lookup_002)
  have bad: "create_transaction sample_env
      (transfer_request ''ACC-001-USD'' ''ACC-002-USD'' NotADecimal ''USD'') sample_state
     = (Inl InvalidOperation, sample_state)"
    using amount_is_only_converted [OF _ _ _ _ src tgt,
        of "transfer_request ''ACC-001-USD'' ''ACC-002-USD'' NotADecimal ''USD''"
          NotADecimal "''USD''" sample_env]
    by (simp add: transfer_request_def)
  have good: "fst (create_transaction sample_env
      (transfer_request ''ACC-001-USD'' ''ACC-002-USD'' (Dec (1 / 2)) ''USD'') sample_state)
     = Inr (new_transaction sample_env ''ACC-001-USD'' ''ACC-002-USD'' (1 / 2) ''USD'' None)"
    using amount_is_only_converted [OF _ _ _ _ src tgt,
        of "transfer_request ''ACC-001-USD'' ''ACC-002-USD'' (Dec (1 / 2)) ''USD''"
          "Dec (1 / 2)" "''USD''" sample_env]
    by (simp add: transfer_request_def sample_state_eq mk_account_def get_transaction_def)
  from bad good show ?thesis by simp
qed

lemma thousandth_has_three_digits: "\<not> two_fractional_digits (1 / 1000)"
proof -
  have "\<lfloor>(1 / 1000 :: rat) * 100\<rfloor> = 0"
    by (rule floor_unique) simp_all
  then show ?thesis
    by (simp add: two_fractional_digits_def)
qed

text \<open>
  Claim C3 as stated fails: an amount of zero is accepted, and so is an amount of one
  thousandth, which has three fractional digits.
\<close>

theorem zero_and_fine_amounts_accepted:
  "http_status (fst (create_transaction sample_env
      (transfer_request ''ACC-001-USD'' ''ACC-002-USD'' (Dec 0) ''USD'') sample_state)) = 201 \<and>
   \<not> two_fractional_digits (1 / 1000) \<and>
   http_status (fst (create_transaction sample_env
      (transfer_request ''ACC-001-USD'' ''ACC-002-USD'' (Dec (1 / 1000)) ''USD'') sample_state)) = 201"
  by (simp add: create_transaction_def transfer_request_def sample_state_eq sample_lookup_001
      sample_lookup_002 mk_account_def get_transaction_def Let_def
      thousandth_has_three_digits)

section \<open>Overdraft\<close>

lemma set_update_account:
  assumes "get_account accs i = Some a"
  shows "set (update_account i g accs) \<subseteq> insert (g a) (set accs)"
  using assms by (induction accs) (auto simp: get_account_def split: if_splits)

lemma no_overdraft_step:
  assumes "no_overdraft s" and "amount_not_negative r"
  shows "no_overdraft (snd (create_transaction e r s))"
proof (cases "fst (create_transaction e r s)")
  case (Inl x)
  with assms(1) show ?thesis
    by (simp add: create_transaction_error_unchanged)
next
  case (Inr txn)
  then have "create_transaction e r s = (Inr txn, snd (create_transaction e r s))"
    by (metis prod.collapse)
  from create_transaction_InrD [OF this] obtain f t amt c fa ta where
    amt: "req_amount r = Some (Dec amt)"
    and fa: "get_account (accounts s) f = Some fa"
    and ta: "get_account (accounts s) t = Some ta"
    and le: "amt \<le> balance fa"
    and s': "accounts (snd (create_transaction e r s)) =
       update_account t (\<lambda>a. a\<lparr>balance := balance a + amt\<rparr>)
         (update_account f (\<lambda>a. a\<lparr>balance := balance a - amt\<rparr>) (accounts s))"
    by force
  let ?debit = "\<lambda>a. a\<lparr>balance := balance a - amt\<rparr>"
  let ?credit = "\<lambda>a. a\<lparr>balance := balance a + amt\<rparr>"
  let ?accs1 = "update_account f ?debit (accounts s)"
  from amt assms(2) have pos: "0 \<le> amt"
    by (simp add: amount_not_negative_def)
  have all: "\<forall>a \<in> set (accounts s). 0 \<le> balance a"
    using assms(1) by (simp add: no_overdraft_def list_all_iff)
  have all1: "\<forall>a \<in> set ?accs1. 0 \<le> balance a"
    using set_update_account [OF fa, of ?debit] all le by auto
  have "\<exists>ta1. get_account ?accs1 t = Some ta1"
    using ta fa
    by (cases "t = f") (simp_all add: get_account_update_same get_account_update_other)
  then obtain ta1 where ta1: "get_account ?accs1 t = Some ta1" ..
  then have "ta1 \<in> set ?accs1"
    by (auto simp: get_account_def find_Some_iff)
  with all1 have "0 \<le> balance ta1" by simp
  with set_update_account [OF ta1, of ?credit] all1 pos
  have "\<forall>a \<in> set (update_account t ?credit ?accs1). 0 \<le> balance a"
    by auto
  then show ?thesis
    by (simp add: s' no_overdraft_def list_all_iff)
qed

text \<open>
  A sequence of requests none of which has a negative amount keeps every balance at
  zero or above.
\<close>

theorem no_overdraft_run:
  assumes "no_overdraft s" and "list_all (\<lambda>x. amount_not_negative (snd x)) xs"
  shows "no_overdraft (run xs s)"
  using assms by (induction xs arbitrary: s) (simp_all add: no_overdraft_step)

lemma sample_no_overdraft: "no_overdraft sample_state"
  by (simp add: no_overdraft_def sample_state_eq sample_accounts_def mk_account_def)

theorem no_overdraft_run_witness:
  "no_overdraft sample_state \<and>
   amount_not_negative (transfer_request ''ACC-001-USD'' ''ACC-002-USD'' (Dec 300) ''usd'') \<and>
   no_overdraft (run [(sample_env, transfer_request ''ACC-001-USD'' ''ACC-002-USD'' (Dec 300) ''usd'')]
     sample_state)"
proof -
  have nn: "list_all (\<lambda>x. amount_not_negative (snd x))
      [(sample_env, transfer_request ''ACC-001-USD'' ''ACC-002-USD'' (Dec 300) ''usd'')]"
    by (simp add: amount_not_negative_def transfer_request_def)
  from no_overdraft_run [OF sample_no_overdraft nn] sample_no_overdraft nn
  show ?thesis by simp
qed

text \<open>
  Claim C4 at a request with a negative amount. Every sample balance is non-negative;
  a transfer of \<open>-600000\<close> from ACC-001-USD to ACC-002-USD passes the balance check
  on the source, is answered with 201, and leaves the target, which held 500000,
  at \<open>-100000\<close>.
\<close>

theorem negative_amount_overdraws_target:
  "no_overdraft sample_state \<and>
   http_status (fst (create_transaction sample_env
      (transfer_request ''ACC-001-USD'' ''ACC-002-USD'' (Dec (- 600000)) ''USD'') sample_state)) = 201 \<and>
   balance_of (snd (create_transaction sample_env
      (transfer_request ''ACC-001-USD'' ''ACC-002-USD'' (Dec (- 600000)) ''USD'') sample_state))
      ''ACC-001-USD'' = Some 1600000 \<and>
   balance_of (snd (create_transaction sample_env
      (transfer_request ''ACC-001-USD'' ''ACC-002-USD'' (Dec (- 600000)) ''USD'') sample_state))
      ''ACC-002-USD'' = Some (- 100000) \<and>
   \<not> no_overdraft (run [(sample_env,
      transfer_request ''ACC-001-USD'' ''ACC-002-USD'' (Dec (- 600000)) ''USD'')] sample_state)"
  by (simp add: sample_no_overdraft)
    (simp add: create_transaction_def transfer_request_def sample_state_eq
      mk_account_def get_transaction_def Let_def balance_of_eq no_overdraft_def
      sample_accounts_def get_account_def)

section \<open>Order of the checks\<close>

text \<open>
  Claim C6, as the code has it. The checks run in this order, each with an error of
  its own: the required keys \<open>from_account\<close>, \<open>to_account\<close>, \<open>amount\<close>,
  \<open>currency\<close>; the source account; the target account; the conversion of the
  amount; the balance of the source account. A later check is reached only when all
  earlier ones pass, and whenever the response is an error the database is the one
  before the request.
\<close>

theorem validation_order:
  "(req_from_account r = None \<longrightarrow>
      fst (create_transaction e r s) = Inl (MissingField ''from_account'')) \<and>
   (\<forall>f. req_from_account r = Some f \<and> req_to_account r = None \<longrightarrow>
      fst (create_transaction e r s) = Inl (MissingField ''to_account'')) \<and>
   (\<forall>f t. req_from_account r = Some f \<and> req_to_account r = Some t \<and> req_amount r = None \<longrightarrow>
      fst (create_transaction e r s) = Inl (MissingField ''amount'')) \<and>
   (\<forall>f t v. req_from_account r = Some f \<and> req_to_account r = Some t \<and> req_amount r = Some v \<and>
      req_currency r = None \<longrightarrow>
      fst (create_transaction e r s) = Inl (MissingField ''currency'')) \<and>
   (\<forall>f t v c. req_from_account r = Some f \<and> req_to_account r = Some t \<and> req_amount r = Some v \<and>
      req_currency r = Some c \<longrightarrow>
      (get_account (accounts s) f = None \<longrightarrow>
         fst (create_transaction e r s) = Inl SourceNotFound) \<and>
      (\<forall>fa. get_account (accounts s) f = Some fa \<longrightarrow>
         (get_account (accounts s) t = None \<longrightarrow>
            fst (create_transaction e r s) = Inl TargetNotFound) \<and>
         (\<forall>ta. get_account (accounts s) t = Some ta \<longrightarrow>
            (v = NotADecimal \<longrightarrow> fst (create_transaction e r s) = Inl InvalidOperation) \<and>
            (\<forall>amt. v = Dec amt \<and> balance fa < amt \<longrightarrow>
               fst (create_transaction e r s) = Inl InsufficientFunds)))) \<and>
   (\<forall>x. fst (create_transaction e r s) = Inl x \<longrightarrow> snd (create_transaction e r s) = s)"
  by (auto simp: create_transaction_def Let_def
      split: option.splits amount_value.splits if_splits)

theorem validation_order_witness:
  "fst (create_transaction sample_env
      (transfer_request ''ACC-404'' ''ACC-405'' NotADecimal ''USD'') sample_state)
     = Inl SourceNotFound \<and>
   fst (create_transaction sample_env
      (transfer_request ''ACC-001-USD'' ''ACC-405'' NotADecimal ''USD'') sample_state)
     = Inl TargetNotFound \<and>
   snd (create_transaction sample_env
      (transfer_request ''ACC-001-USD'' ''ACC-405'' NotADecimal ''USD'') sample_state)
     = sample_state"
proof -
  have none404: "get_account (sample_accounts 0) ''ACC-404'' = None"
    by (simp add: sample_accounts_def mk_account_def get_account_def)
  have none405: "get_account (sample_accounts 0) ''ACC-405'' = None"
    by (simp add: sample_accounts_def mk_account_def get_account_def)
  have a: "fst (create_transaction sample_env
      (transfer_request ''ACC-404'' ''ACC-405'' NotADecimal ''USD'') sample_state)
     = Inl SourceNotFound"
    using validation_order [of "transfer_request ''ACC-404'' ''ACC-405'' NotADecimal ''USD''"
        sample_env sample_state]
    by (simp add: transfer_request_def sample_state_eq none404)
  have b: "fst (create_transaction sample_env
      (transfer_request ''ACC-001-USD'' ''ACC-405'' NotADecimal ''USD'') sample_state)
     = Inl TargetNotFound"
    using validation_order [of "transfer_request ''ACC-001-USD'' ''ACC-405'' NotADecimal ''USD''"
        sample_env sample_state]
    by (simp add: transfer_request_def sample_state_eq none405 sample_lookup_001)
  have c: "snd (create_transaction sample_env
      (transfer_request ''ACC-001-USD'' ''ACC-405'' NotADecimal ''USD'') sample_state)
     = sample_state"
    using validation_order [of "transfer_request ''ACC-001-USD'' ''ACC-405'' NotADecimal ''USD''"
        sample_env sample_state] b
    by simp
  from a b c show ?thesis by simp
qed

text \<open>
  Claim C6 as stated fails. For a request with an unknown source account and an
  amount that is not a number, the specification's order stops at the amount
  (step 2), the code at the source account. For a request with a valid amount from an
  account to itself, the specification's order stops at step 1, and the code
  stops nowhere: the response is a 201.
\<close>

theorem checks_not_in_specified_order:
  "spec_validation (transfer_request ''ACC-404'' ''ACC-002-USD'' NotADecimal ''USD'') sample_state
     = Some Spec_InvalidAmount \<and>
   fst (create_transaction sample_env
      (transfer_request ''ACC-404'' ''ACC-002-USD'' NotADecimal ''USD'') sample_state)
     = Inl SourceNotFound \<and>
   spec_validation (transfer_request ''ACC-001-USD'' ''ACC-001-USD'' (Dec 10) ''USD'') sample_state
     = Some Spec_SelfTransfer \<and>
   http_status (fst (create_transaction sample_env
      (transfer_request ''ACC-001-USD'' ''ACC-001-USD'' (Dec 10) ''USD'') sample_state)) = 201"
  by (simp add: spec_validation_def create_transaction_def transfer_request_def sample_state_eq
      sample_lookup_001 mk_account_def get_transaction_def Let_def)
    (simp add: sample_accounts_def mk_account_def get_account_def)

section \<open>Listing accounts\<close>

lemma upper_char_idem: "upper_char (upper_char c) = upper_char c"
proof (cases "97 \<le> (of_char c :: nat) \<and> (of_char c :: nat) \<le> 122")
  case True
  then have up: "upper_char c = char_of (of_char c - 32 :: nat)"
    by (simp add: upper_char_def)
  from True have "(of_char c :: nat) - 32 < 256"
    by arith
  then have code: "(of_char (char_of (of_char c - 32 :: nat)) :: nat) = of_char c - 32"
    by simp
  from True have "\<not> (97 \<le> (of_char c :: nat) - 32 \<and> (of_char c :: nat) - 32 \<le> 122)"
    by arith
  then have "upper_char (char_of (of_char c - 32 :: nat)) = char_of (of_char c - 32 :: nat)"
    unfolding upper_char_def Let_def code by (rule if_not_P)
  with up show ?thesis
    by simp
next
  case False
  then have "upper_char c = c"
    unfolding upper_char_def Let_def by (rule if_not_P)
  then show ?thesis
    by simp
qed

lemma upper_idem: "upper (upper c) = upper c"
  by (simp add: upper_def upper_char_idem)

lemma upper_empty_iff: "upper c = [] \<longleftrightarrow> c = []"
  by (simp add: upper_def)

lemma upper_usd: "upper ''usd'' = ''USD''" and upper_mixed: "upper ''uSd'' = ''USD''"
  by (simp_all add: upper_def upper_char_def Let_def char_of_def bit_0)

text \<open>
  Claim C7, as the code has it. A currency parameter that is not empty is upper-cased
  and compared exactly with the stored currency of each account: the answer is the
  list of the accounts whose currency equals the upper-cased parameter, so two
  parameters with the same upper-case form, and a parameter and its upper-case form,
  get the same answer. Without the parameter, and with an empty one, the answer is
  the list of all accounts.
\<close>

theorem get_accounts_filter:
  "(c \<noteq> [] \<longrightarrow>
      get_accounts (Some c) s = filter (\<lambda>a. acc_currency a = upper c) (accounts s)) \<and>
   (c \<noteq> [] \<and> c' \<noteq> [] \<and> upper c = upper c' \<longrightarrow>
      get_accounts (Some c) s = get_accounts (Some c') s) \<and>
   get_accounts (Some (upper c)) s = get_accounts (Some c) s \<and>
   get_accounts (Some []) s = accounts s \<and>
   get_accounts None s = accounts s"
  by (auto simp: get_accounts_def upper_idem upper_empty_iff)

theorem get_accounts_filter_witness:
  "get_accounts (Some ''usd'') sample_state =
     filter (\<lambda>a. acc_currency a = ''USD'') (accounts sample_state) \<and>
   get_accounts (Some ''usd'') sample_state = get_accounts (Some ''uSd'') sample_state \<and>
   map acc_id (get_accounts (Some ''usd'') sample_state) = [''ACC-001-USD'', ''ACC-002-USD'']"
proof -
  have a: "get_accounts (Some ''usd'') sample_state =
     filter (\<lambda>a. acc_currency a = ''USD'') (accounts sample_state)"
    using get_accounts_filter [of "''usd''" sample_state] by (simp add: upper_usd)
  have b: "get_accounts (Some ''usd'') sample_state = get_accounts (Some ''uSd'') sample_state"
    using get_accounts_filter [of "''usd''" sample_state "''uSd''", THEN conjunct2, THEN conjunct1]
    by (simp add: upper_usd upper_mixed)
  have c: "map acc_id (filter (\<lambda>a. acc_currency a = ''USD'') (accounts sample_state)) =
     [''ACC-001-USD'', ''ACC-002-USD'']"
    by (simp add: sample_state_eq sample_accounts_def mk_account_def)
  from a b c show ?thesis by simp
qed

text \<open>
  Claim C7 as stated fails for the empty currency parameter (\<open>?currency=\<close>): no account
  has the empty currency, and the answer is the list of all six accounts.
\<close>

theorem empty_currency_filter_lists_all:
  "filter (\<lambda>a. acc_currency a = upper []) (accounts sample_state) = [] \<and>
   get_accounts (Some []) sample_state = accounts sample_state \<and>
   length (get_accounts (Some []) sample_state) = 6"
  by (simp add: get_accounts_def upper_def sample_state_eq sample_accounts_def mk_account_def)

section \<open>Listing transactions\<close>







section \<open>What a transfer leaves alone\<close>

text \<open>After an update of account \<open>i\<close>, each row is the row before or the updated row of id \<open>i\<close>.\<close>

lemma update_account_rel:
  "list_all2 (\<lambda>a a'. a' = a \<or> (acc_id a = i \<and> a' = g a)) accs (update_account i g accs)"
  by (induction accs) (simp_all add: list_all2_refl)

text \<open>
  Claim C9. For every request, successful or not, the accounts table after the request
  has the same rows in the same places, each with its id, name, currency, account type,
  status and creation time as before; a row whose id is neither the source nor the
  target of the request is the row it was, balance included.
\<close>

theorem transfer_frame:
  "list_all2
     (\<lambda>a a'. acc_id a' = acc_id a \<and> acc_name a' = acc_name a \<and>
        acc_currency a' = acc_currency a \<and> account_type a' = account_type a \<and>
        acc_status a' = acc_status a \<and> acc_created_at a' = acc_created_at a \<and>
        (Some (acc_id a) \<noteq> req_from_account r \<and> Some (acc_id a) \<noteq> req_to_account r
           \<longrightarrow> a' = a))
     (accounts s) (accounts (snd (create_transaction e r s)))"
proof (cases "fst (create_transaction e r s)")
  case (Inl x)
  then show ?thesis
    by (simp add: create_transaction_error_unchanged list_all2_refl)
next
  case (Inr txn)
  then have "create_transaction e r s = (Inr txn, snd (create_transaction e r s))"
    by (metis prod.collapse)
  from create_transaction_InrD [OF this] obtain f t amt where
    r: "req_from_account r = Some f" "req_to_account r = Some t"
    and s': "accounts (snd (create_transaction e r s)) =
       update_account t (\<lambda>a. a\<lparr>balance := balance a + amt\<rparr>)
         (update_account f (\<lambda>a. a\<lparr>balance := balance a - amt\<rparr>) (accounts s))"
    by force
  show ?thesis
    unfolding s' r
    by (rule list_all2_trans [OF _ update_account_rel update_account_rel]) auto
qed

theorem transfer_frame_witness:
  "map acc_status (accounts (snd (create_transaction sample_env
      (transfer_request ''ACC-001-USD'' ''ACC-002-USD'' (Dec 300) ''usd'') sample_state)))
     = map acc_status (accounts sample_state) \<and>
   drop 2 (accounts (snd (create_transaction sample_env
      (transfer_request ''ACC-001-USD'' ''ACC-002-USD'' (Dec 300) ''usd'') sample_state)))
     = drop 2 (accounts sample_state)"
proof -
  let ?s' = "snd (create_transaction sample_env
      (transfer_request ''ACC-001-USD'' ''ACC-002-USD'' (Dec 300) ''usd'') sample_state)"
  have accs: "accounts ?s' =
      update_account ''ACC-002-USD'' (\<lambda>a. a\<lparr>balance := balance a + 300\<rparr>)
        (update_account ''ACC-001-USD'' (\<lambda>a. a\<lparr>balance := balance a - 300\<rparr>) (sample_accounts 0))"
    by (simp add: sample_transfer_300)
  from transfer_frame [of "transfer_request ''ACC-001-USD'' ''ACC-002-USD'' (Dec 300) ''usd''"
      sample_state sample_env]
  show ?thesis
    unfolding accs
    by (simp add: sample_state_eq sample_accounts_def mk_account_def transfer_request_def)
qed

section \<open>Account status and transfers\<close>

lemma get_account_map:
  assumes "\<And>a. acc_id (h a) = acc_id a"
  shows "get_account (map h accs) i = map_option h (get_account accs i)"
  using assms by (induction accs) (auto simp: get_account_def)

lemma get_account_with_status:
  "get_account (accounts (with_status st s)) i =
     map_option (\<lambda>a. a\<lparr>acc_status := st (acc_id a)\<rparr>) (get_account (accounts s) i)"
  by (simp add: with_status_def get_account_map)

lemma update_account_map_status:
  "update_account i (\<lambda>a. a\<lparr>balance := g (balance a)\<rparr>) (map (\<lambda>a. a\<lparr>acc_status := st (acc_id a)\<rparr>) accs) =
     map (\<lambda>a. a\<lparr>acc_status := st (acc_id a)\<rparr>) (update_account i (\<lambda>a. a\<lparr>balance := g (balance a)\<rparr>) accs)"
  by (induction accs) auto

text \<open>
  Claim C10. The status of the accounts has no part in a transfer: with the status of
  every account replaced in any way, the response is the same and the database after
  the request is the same but for the replaced status. So a request that passes the
  checks (required keys, both accounts found, amount a decimal not above the source
  balance, new id free) succeeds and moves the amount also when the accounts are
  \<open>Inactive\<close>.
\<close>

theorem status_never_inspected:
  "create_transaction e r (with_status st s) =
     (fst (create_transaction e r s), with_status st (snd (create_transaction e r s))) \<and>
   (\<forall>f t amt c fa ta.
      req_from_account r = Some f \<and> req_to_account r = Some t \<and>
      req_amount r = Some (Dec amt) \<and> req_currency r = Some c \<and>
      get_account (accounts s) f = Some fa \<and> get_account (accounts s) t = Some ta \<and>
      amt \<le> balance fa \<and>
      get_transaction (transactions s)
        (txn_id (new_transaction e f t amt c (req_description r))) = None
      \<longrightarrow>
      create_transaction e r (with_status st s) =
        (Inr (new_transaction e f t amt c (req_description r)),
         with_status st
           \<lparr>accounts = update_account t (\<lambda>a. a\<lparr>balance := balance a + amt\<rparr>)
                         (update_account f (\<lambda>a. a\<lparr>balance := balance a - amt\<rparr>) (accounts s)),
            transactions = transactions s @ [new_transaction e f t amt c (req_description r)]\<rparr>))"
proof -
  have tx: "transactions (with_status st s) = transactions s"
    by (simp add: with_status_def)
  have accs: "accounts (with_status st s) = map (\<lambda>a. a\<lparr>acc_status := st (acc_id a)\<rparr>) (accounts s)"
    by (simp add: with_status_def)
  have same: "create_transaction e r (with_status st s) =
     (fst (create_transaction e r s), with_status st (snd (create_transaction e r s)))"
    unfolding create_transaction_def Let_def get_account_with_status tx
    by (auto split: option.splits amount_value.splits
        simp: accs update_account_map_status [where g = "\<lambda>b. b + x" for x]
          update_account_map_status [where g = "\<lambda>b. b - x" for x] with_status_def)
  show ?thesis
    using same by (auto simp: create_transaction_success)
qed

theorem status_never_inspected_witness:
  "map acc_status (accounts (with_status (\<lambda>i. ''Inactive'') sample_state)) =
     replicate 6 ''Inactive'' \<and>
   http_status (fst (create_transaction sample_env
      (transfer_request ''ACC-001-USD'' ''ACC-002-USD'' (Dec 300) ''usd'')
      (with_status (\<lambda>i. ''Inactive'') sample_state))) = 201 \<and>
   balance_of (snd (create_transaction sample_env
      (transfer_request ''ACC-001-USD'' ''ACC-002-USD'' (Dec 300) ''usd'')
      (with_status (\<lambda>i. ''Inactive'') sample_state))) ''ACC-001-USD'' = Some 999700 \<and>
   balance_of (snd (create_transaction sample_env
      (transfer_request ''ACC-001-USD'' ''ACC-002-USD'' (Dec 300) ''usd'')
      (with_status (\<lambda>i. ''Inactive'') sample_state))) ''ACC-002-USD'' = Some 500300"
proof -
  let ?r = "transfer_request ''ACC-001-USD'' ''ACC-002-USD'' (Dec 300) ''usd''"
  have inactive: "map acc_status (accounts (with_status (\<lambda>i. ''Inactive'') sample_state)) =
     replicate 6 ''Inactive''"
    by (simp add: with_status_def sample_state_eq sample_accounts_def numeral_eq_Suc)
  from status_never_inspected [of sample_env ?r "\<lambda>i. ''Inactive''" sample_state]
  have run: "create_transaction sample_env ?r (with_status (\<lambda>i. ''Inactive'') sample_state) =
     (fst (create_transaction sample_env ?r sample_state),
      with_status (\<lambda>i. ''Inactive'') (snd (create_transaction sample_env ?r sample_state)))"
    by blast
  have "http_status (fst (create_transaction sample_env ?r
      (with_status (\<lambda>i. ''Inactive'') sample_state))) = 201"
    and "balance_of (snd (create_transaction sample_env ?r
      (with_status (\<lambda>i. ''Inactive'') sample_state))) ''ACC-001-USD'' = Some 999700"
    and "balance_of (snd (create_transaction sample_env ?r
      (with_status (\<lambda>i. ''Inactive'') sample_state))) ''ACC-002-USD'' = Some 500300"
    unfolding run
    by (simp_all add: sample_transfer_300 balance_of_eq get_account_with_status
        get_account_update_same get_account_update_other sample_lookup_001 sample_lookup_002
        mk_account_def)
  with inactive show ?thesis
    by blast
qed

end
